theory Spec2Isabelle
  imports Complex_Main "HOL-Library.Word" "HOL-Library.Sublist"
begin

section \<open>The SCPI multimeter component (components/owon\_xdm/owon\_xdm.h)\<close>

text \<open>
  The component is one C++ class, \<open>SCPIDMM\<close>, whose methods are all defined inline in the
  header. The embedding keeps the member names; the trailing underscore of the private
  members and methods (\<open>rx_buffer_\<close>, \<open>handle_response_\<close>, ...) is dropped, since a
  constant's name cannot end in an underscore, and \<open>setup\<close>, \<open>loop\<close> are written
  \<open>setup_dmm\<close>, \<open>loop_dmm\<close>.

  Everything the class does to the outside world goes through four calls: \<open>write_str\<close> on
  the UART, \<open>publish_state\<close> on a sensor object, \<open>register_service\<close> and the warning log.
  A method of the model returns the list of these calls, in program order, together with
  the updated object.
\<close>

subsection \<open>Command table\<close>

record DeviceCommands =
  measure_voltage_dc :: string
  measure_voltage_ac :: string
  measure_current_dc :: string
  measure_current_ac :: string
  measure_resistance :: string
  measure_frequency :: string
  measure_capacitance :: string
  measure_temperature :: string
  measure_continuity :: string
  measure_diode :: string
  identify :: string
  reset :: string
  remote_enable :: string
  fast_mode :: string
  init_commands :: "string list"

text \<open>The default member initialisers of \<open>struct DeviceCommands\<close>.\<close>

definition DeviceCommands_default :: DeviceCommands where
  "DeviceCommands_default =
     \<lparr> measure_voltage_dc = ''MEAS:VOLT:DC?'',
       measure_voltage_ac = ''MEAS:VOLT:AC?'',
       measure_current_dc = ''MEAS:CURR:DC?'',
       measure_current_ac = ''MEAS:CURR:AC?'',
       measure_resistance = ''MEAS:RES?'',
       measure_frequency = ''MEAS:FREQ?'',
       measure_capacitance = ''MEAS:CAP?'',
       measure_temperature = ''MEAS:TEMP?'',
       measure_continuity = ''MEAS:CONT?'',
       measure_diode = ''MEAS:DIOD?'',
       identify = ''*IDN?'',
       reset = ''*RST'',
       remote_enable = ''SYST:REM'',
       fast_mode = [],
       init_commands = [] \<rparr>"

text \<open>
  \<open>DEVICE_COMMANDS\<close>, a \<open>std::map\<close> from the device key to its command set. A designated
  initialiser overrides the named members and leaves the others at their defaults.
\<close>

definition DEVICE_COMMANDS :: "(string \<times> DeviceCommands) list" where
  "DEVICE_COMMANDS =
     [ (''OWON_XDM'', DeviceCommands_default
          \<lparr> measure_voltage_dc := ''MEAS:VOLT?'',
            measure_current_dc := ''MEAS:CURR?'',
            fast_mode := ''RATE F'',
            init_commands := [''RATE F'', ''RATE?''] \<rparr>),
       (''KEYSIGHT_34460A'', DeviceCommands_default
          \<lparr> init_commands := [''DISP:TEXT:CLE'', ''SENS:VOLT:DC:NPLC 0.02'',
                               ''TRIG:SOUR IMM'', ''TRIG:COUN INF''] \<rparr>) ]"

text \<open>
  Modelled from the spec: the header declares the table \<open>DEVICE_COMMANDS\<close> and never reads
  it; no lookup function is in the source. The specification's contract for it is
  "returns the device-specific entry if the device type matches a known key exactly;
  otherwise returns the generic default entry".
\<close>

definition lookup :: "string \<Rightarrow> DeviceCommands" where
  "lookup device_type =
     (case map_of DEVICE_COMMANDS device_type of
        Some cmds \<Rightarrow> cmds
      | None \<Rightarrow> DeviceCommands_default)"

subsection \<open>The object and its effects\<close>

datatype MeasurementFunction =
    VOLTAGE_DC
  | VOLTAGE_AC
  | CURRENT_DC
  | CURRENT_AC
  | RESISTANCE
  | CONTINUITY
  | DIODE
  | FREQUENCY
  | TEMPERATURE
  | CAPACITANCE
  | UNKNOWN

text \<open>
  Modelled from the spec: the header has no function that reads a query string out of a
  command set. The specification's Function State Machine "maps the current function to
  the correct query string via the Command Table", and "UNKNOWN maps to a generic
  measurement query": the member of the command set named after the function, and
  \<open>MEAS?\<close> for \<open>UNKNOWN\<close>, for which the command set has no member.
\<close>

definition command_for :: "DeviceCommands \<Rightarrow> MeasurementFunction \<Rightarrow> string" where
  "command_for cmds f =
     (case f of
        VOLTAGE_DC \<Rightarrow> measure_voltage_dc cmds
      | VOLTAGE_AC \<Rightarrow> measure_voltage_ac cmds
      | CURRENT_DC \<Rightarrow> measure_current_dc cmds
      | CURRENT_AC \<Rightarrow> measure_current_ac cmds
      | RESISTANCE \<Rightarrow> measure_resistance cmds
      | CONTINUITY \<Rightarrow> measure_continuity cmds
      | DIODE \<Rightarrow> measure_diode cmds
      | FREQUENCY \<Rightarrow> measure_frequency cmds
      | TEMPERATURE \<Rightarrow> measure_temperature cmds
      | CAPACITANCE \<Rightarrow> measure_capacitance cmds
      | UNKNOWN \<Rightarrow> ''MEAS?'')"

text \<open>A pointer to a framework object: \<open>None\<close> is \<open>nullptr\<close>, \<open>Some a\<close> the object at \<open>a\<close>.\<close>

type_synonym ptr = "nat option"

record SCPIDMM =
  value_sensor :: ptr
  secondary_value_sensor :: ptr
  function_sensor :: ptr
  range_sensor :: ptr
  status_sensor :: ptr
  idn_sensor :: ptr
  function_select :: ptr
  range_select :: ptr
  rate_select :: ptr
  reset_button :: ptr
  zero_button :: ptr
  rx_buffer :: string
  current_function :: MeasurementFunction
  waiting_for_idn :: bool
  last_query :: "32 word"

text \<open>The object after \<open>SCPIDMM() = default\<close>: every member at its initialiser.\<close>

definition new_SCPIDMM :: SCPIDMM where
  "new_SCPIDMM =
     \<lparr> value_sensor = None, secondary_value_sensor = None, function_sensor = None,
       range_sensor = None, status_sensor = None, idn_sensor = None,
       function_select = None, range_select = None, rate_select = None,
       reset_button = None, zero_button = None,
       rx_buffer = [], current_function = UNKNOWN, waiting_for_idn = True,
       last_query = 0 \<rparr>"

definition query_interval :: "32 word" where
  "query_interval = 100"

text \<open>
  The calls that leave the object. \<open>'f\<close> is the type of a C++ \<open>float\<close>; the model does no
  arithmetic on it.
\<close>

datatype 'f effect =
    RegisterService string "string list"
  | WriteStr string
  | PublishValue nat 'f
  | PublishText nat string
  | LogW string string

fun is_text_publish :: "'f effect \<Rightarrow> bool" where
  "is_text_publish (PublishText _ _) = True"
| "is_text_publish _ = False"

text \<open>The bytes written to the UART, in order.\<close>

fun written :: "'f effect list \<Rightarrow> string list" where
  "written [] = []"
| "written (WriteStr w # es) = w # written es"
| "written (_ # es) = written es"

subsection \<open>Sensor setters\<close>

definition set_value_sensor :: "ptr \<Rightarrow> SCPIDMM \<Rightarrow> SCPIDMM" where
  "set_value_sensor value_sensor' s = s\<lparr>value_sensor := value_sensor'\<rparr>"

definition set_secondary_value_sensor :: "ptr \<Rightarrow> SCPIDMM \<Rightarrow> SCPIDMM" where
  "set_secondary_value_sensor sensor s = s\<lparr>secondary_value_sensor := sensor\<rparr>"

definition set_function_sensor :: "ptr \<Rightarrow> SCPIDMM \<Rightarrow> SCPIDMM" where
  "set_function_sensor sensor s = s\<lparr>function_sensor := sensor\<rparr>"

definition set_range_sensor :: "ptr \<Rightarrow> SCPIDMM \<Rightarrow> SCPIDMM" where
  "set_range_sensor sensor s = s\<lparr>range_sensor := sensor\<rparr>"

text \<open>
  In the next two bodies the right-hand side is the member, not the parameter: the
  parameter is called \<open>sensor\<close>, and \<open>status_sensor\<close>, \<open>idn_sensor\<close> name the members.
\<close>

definition set_status_sensor :: "ptr \<Rightarrow> SCPIDMM \<Rightarrow> SCPIDMM" where
  "set_status_sensor sensor s = s\<lparr>status_sensor := status_sensor s\<rparr>"

definition set_idn_sensor :: "ptr \<Rightarrow> SCPIDMM \<Rightarrow> SCPIDMM" where
  "set_idn_sensor sensor s = s\<lparr>idn_sensor := idn_sensor s\<rparr>"

subsection \<open>Sending\<close>

definition CR :: char where
  "CR = CHR 0x0D"

definition LF :: char where
  "LF = CHR 0x0A"

definition setup_dmm :: "SCPIDMM \<Rightarrow> 'f effect list \<times> SCPIDMM" where
  "setup_dmm s =
     ([ RegisterService ''relative_zero'' [],
        RegisterService ''reset'' [],
        RegisterService ''set_function'' [''function''],
        RegisterService ''set_range'' [''mode''],
        RegisterService ''set_rate'' [''mode''],
        WriteStr (''*IDN?'' @ [CR, LF]),
        WriteStr (''*RST'' @ [CR, LF]),
        WriteStr (''SYST:REM'' @ [CR, LF]) ], s)"

definition send_command :: "string \<Rightarrow> SCPIDMM \<Rightarrow> 'f effect list \<times> SCPIDMM" where
  "send_command cmd s = ([WriteStr (cmd @ [CR, LF])], s)"

definition query_measurement :: "SCPIDMM \<Rightarrow> 'f effect list \<times> SCPIDMM" where
  "query_measurement s =
     (case current_function s of
        VOLTAGE_DC \<Rightarrow> send_command ''MEAS:VOLT:DC?'' s
      | VOLTAGE_AC \<Rightarrow> send_command ''MEAS:VOLT:AC?'' s
      | CURRENT_DC \<Rightarrow> send_command ''MEAS:CURR:DC?'' s
      | CURRENT_AC \<Rightarrow> send_command ''MEAS:CURR:AC?'' s
      | RESISTANCE \<Rightarrow> send_command ''MEAS:RES?'' s
      | FREQUENCY \<Rightarrow> send_command ''MEAS:FREQ?'' s
      | CAPACITANCE \<Rightarrow> send_command ''MEAS:CAP?'' s
      | TEMPERATURE \<Rightarrow> send_command ''MEAS:TEMP?'' s
      | CONTINUITY \<Rightarrow> send_command ''MEAS:CONT?'' s
      | DIODE \<Rightarrow> send_command ''MEAS:DIOD?'' s
      | UNKNOWN \<Rightarrow> send_command ''MEAS?'' s)"

subsection \<open>Function parsing\<close>

text \<open>
  \<open>::toupper\<close> in the C locale: the 26 lower-case ASCII letters move, every other byte
  (digits, punctuation, bytes above 127) stays.
\<close>

definition toupper :: "char \<Rightarrow> char" where
  "toupper c =
     (case map_of (zip ''abcdefghijklmnopqrstuvwxyz'' ''ABCDEFGHIJKLMNOPQRSTUVWXYZ'') c of
        Some u \<Rightarrow> u
      | None \<Rightarrow> c)"

text \<open>
  \<open>std::string::find\<close>: the first position at which the argument occurs, \<open>None\<close> for
  \<open>npos\<close>.
\<close>

fun find_str :: "string \<Rightarrow> string \<Rightarrow> nat option" where
  "find_str [] sub = (if sub = [] then Some 0 else None)"
| "find_str (c # cs) sub =
     (if prefix sub (c # cs) then Some 0 else map_option Suc (find_str cs sub))"

definition parse_function :: "string \<Rightarrow> MeasurementFunction" where
  "parse_function function =
     (let upper = map toupper function in
      if find_str upper ''VOLT:DC'' \<noteq> None then VOLTAGE_DC
      else if find_str upper ''VOLT:AC'' \<noteq> None then VOLTAGE_AC
      else if find_str upper ''CURR:DC'' \<noteq> None then CURRENT_DC
      else if find_str upper ''CURR:AC'' \<noteq> None then CURRENT_AC
      else if find_str upper ''RES'' \<noteq> None then RESISTANCE
      else if find_str upper ''CONT'' \<noteq> None then CONTINUITY
      else if find_str upper ''DIOD'' \<noteq> None then DIODE
      else if find_str upper ''FREQ'' \<noteq> None then FREQUENCY
      else if find_str upper ''TEMP'' \<noteq> None then TEMPERATURE
      else if find_str upper ''CAP'' \<noteq> None then CAPACITANCE
      else UNKNOWN)"

definition set_function :: "string \<Rightarrow> SCPIDMM \<Rightarrow> 'f effect list \<times> SCPIDMM" where
  "set_function function s =
     (let (es, s1) = send_command function s;
          s2 = s1\<lparr>current_function := parse_function function\<rparr>
      in (es @ (case function_sensor s2 of
                  Some p \<Rightarrow> [PublishText p function]
                | None \<Rightarrow> []), s2))"

subsection \<open>Receiving\<close>

text \<open>
  \<open>std::stof\<close> belongs to the C++ library, not to the component, and is a parameter of
  the model: \<open>stof r = Some v\<close> when the call returns \<open>v\<close>, \<open>None\<close> when it throws
  (\<open>invalid_argument\<close> or \<open>out_of_range\<close>), which the \<open>catch (...)\<close> of
  \<open>handle_response_\<close> turns into the warning.
\<close>

definition parse_numeric_response :: "(string \<Rightarrow> 'f option) \<Rightarrow> string \<Rightarrow> 'f option" where
  "parse_numeric_response stof response = stof response"

text \<open>\<open>c_str()\<close> printed with \<open>%s\<close>: the characters before the first NUL.\<close>

definition c_str :: "string \<Rightarrow> string" where
  "c_str r = takeWhile (\<lambda>c. c \<noteq> CHR 0x00) r"

definition handle_response ::
  "(string \<Rightarrow> 'f option) \<Rightarrow> string \<Rightarrow> SCPIDMM \<Rightarrow> 'f effect list \<times> SCPIDMM" where
  "handle_response stof response s =
     (if response = [] then ([], s)
      else if waiting_for_idn s then
        ((case idn_sensor s of
            Some p \<Rightarrow> [PublishText p response]
          | None \<Rightarrow> []), s\<lparr>waiting_for_idn := False\<rparr>)
      else
        (case parse_numeric_response stof response of
           Some v \<Rightarrow>
             ((case value_sensor s of
                 Some p \<Rightarrow> [PublishValue p v]
               | None \<Rightarrow> []), s)
         | None \<Rightarrow>
             ([LogW ''scpi_dmm'' (''Non-numeric response: '' @ c_str response)], s)))"

text \<open>One iteration of the \<open>while (available())\<close> loop, on the byte \<open>c\<close> just read.\<close>

definition loop_byte ::
  "(string \<Rightarrow> 'f option) \<Rightarrow> char \<Rightarrow> SCPIDMM \<Rightarrow> 'f effect list \<times> SCPIDMM" where
  "loop_byte stof c s =
     (if c = LF then
        (if length (rx_buffer s) > 0 then
           (let (es, s1) = handle_response stof (rx_buffer s) s
            in (es, s1\<lparr>rx_buffer := []\<rparr>))
         else ([], s))
      else if c \<noteq> CR then ([], s\<lparr>rx_buffer := rx_buffer s @ [c]\<rparr>)
      else ([], s))"

text \<open>The whole \<open>while\<close> loop, on the bytes available during this call of \<open>loop()\<close>.\<close>

fun rx_loop ::
  "(string \<Rightarrow> 'f option) \<Rightarrow> string \<Rightarrow> SCPIDMM \<Rightarrow> 'f effect list \<times> SCPIDMM" where
  "rx_loop stof [] s = ([], s)"
| "rx_loop stof (c # cs) s =
     (let (es, s1) = loop_byte stof c s;
          (es', s2) = rx_loop stof cs s1
      in (es @ es', s2))"

text \<open>
  \<open>loop()\<close>. It reads \<open>millis()\<close> twice: \<open>now\<close> is the reading compared with
  \<open>last_query_\<close>, \<open>now'\<close> the reading stored after the query has been sent. The
  subtraction and the comparison are those of \<open>uint32_t\<close>.
\<close>

definition loop_dmm ::
  "(string \<Rightarrow> 'f option) \<Rightarrow> string \<Rightarrow> 32 word \<Rightarrow> 32 word \<Rightarrow> SCPIDMM
     \<Rightarrow> 'f effect list \<times> SCPIDMM" where
  "loop_dmm stof bytes now now' s =
     (let (es, s1) = rx_loop stof bytes s in
      if now - last_query s1 \<ge> query_interval then
        (let (qs, s2) = query_measurement s1
         in (es @ qs, s2\<lparr>last_query := now'\<rparr>))
      else (es, s1))"

subsection \<open>Sequences of calls\<close>

text \<open>
  The public methods modelled above, as values, so that a statement can range over every
  sequence of calls made on the object.
\<close>

datatype call =
    Set_value_sensor ptr
  | Set_secondary_value_sensor ptr
  | Set_function_sensor ptr
  | Set_range_sensor ptr
  | Set_status_sensor ptr
  | Set_idn_sensor ptr
  | Setup
  | Loop string "32 word" "32 word"
  | Send_command string
  | Set_function string

fun do_call ::
  "(string \<Rightarrow> 'f option) \<Rightarrow> call \<Rightarrow> SCPIDMM \<Rightarrow> 'f effect list \<times> SCPIDMM" where
  "do_call stof (Set_value_sensor p) s = ([], set_value_sensor p s)"
| "do_call stof (Set_secondary_value_sensor p) s = ([], set_secondary_value_sensor p s)"
| "do_call stof (Set_function_sensor p) s = ([], set_function_sensor p s)"
| "do_call stof (Set_range_sensor p) s = ([], set_range_sensor p s)"
| "do_call stof (Set_status_sensor p) s = ([], set_status_sensor p s)"
| "do_call stof (Set_idn_sensor p) s = ([], set_idn_sensor p s)"
| "do_call stof Setup s = setup_dmm s"
| "do_call stof (Loop bytes now now') s = loop_dmm stof bytes now now' s"
| "do_call stof (Send_command cmd) s = send_command cmd s"
| "do_call stof (Set_function function) s = set_function function s"

fun run ::
  "(string \<Rightarrow> 'f option) \<Rightarrow> call list \<Rightarrow> SCPIDMM \<Rightarrow> 'f effect list \<times> SCPIDMM" where
  "run stof [] s = ([], s)"
| "run stof (c # cs) s =
     (let (es, s1) = do_call stof c s;
          (es', s2) = run stof cs s1
      in (es @ es', s2))"

text \<open>
  The scheduler driven by a sequence of ticks: \<open>loop()\<close> is called once per tick with no
  byte available, both clock readings of a tick being the tick's time. The result lists,
  tick by tick, what was written to the link.
\<close>

fun ticks :: "(string \<Rightarrow> 'f option) \<Rightarrow> 32 word list \<Rightarrow> SCPIDMM \<Rightarrow> string list list" where
  "ticks stof [] s = []"
| "ticks stof (t # ts) s =
     (let (es, s1) = loop_dmm stof [] t t s
      in written es # ticks stof ts s1)"

subsection \<open>The specification's view of function parsing\<close>




subsection \<open>A decimal instance of the number parser\<close>

text \<open>
  An instance of the parameter \<open>stof\<close>, used where a statement is evaluated on concrete
  lines. It reads what the C library documents for a decimal floating constant: leading
  white space, an optional sign, digits with an optional point (at least one digit), an
  optional exponent, and it ignores whatever follows. Its value is the exact decimal
  number, a real: the rounding of \<open>float\<close>, the hexadecimal, infinity and NaN forms and
  the range check of \<open>std::stof\<close> are outside it.
\<close>

definition isspace :: "char \<Rightarrow> bool" where
  "isspace c = (c \<in> set [CHR 0x20, CHR 0x09, CHR 0x0A, CHR 0x0B, CHR 0x0C, CHR 0x0D])"

definition isdigit :: "char \<Rightarrow> bool" where
  "isdigit c = (c \<in> set ''0123456789'')"

definition digits_value :: "string \<Rightarrow> nat" where
  "digits_value ds = foldl (\<lambda>n d. 10 * n + (of_char d - 48)) 0 ds"

definition take_sign :: "string \<Rightarrow> bool \<times> string" where
  "take_sign s =
     (case s of
        [] \<Rightarrow> (False, s)
      | c # r \<Rightarrow> if c = CHR ''-'' then (True, r) else if c = CHR ''+'' then (False, r)
                 else (False, s))"

definition take_exponent :: "string \<Rightarrow> bool \<times> string" where
  "take_exponent s =
     (case s of
        [] \<Rightarrow> (False, [])
      | c # r \<Rightarrow> if c = CHR ''e'' \<or> c = CHR ''E''
                 then (let (neg, r') = take_sign r in (neg, takeWhile isdigit r'))
                 else (False, []))"

definition stof_dec :: "string \<Rightarrow> real option" where
  "stof_dec s =
     (let (neg, s1) = take_sign (dropWhile isspace s);
          ip = takeWhile isdigit s1;
          s2 = dropWhile isdigit s1;
          fp = (case s2 of [] \<Rightarrow> [] | c # r \<Rightarrow> if c = CHR ''.'' then takeWhile isdigit r else []);
          s3 = (case s2 of [] \<Rightarrow> [] | c # r \<Rightarrow> if c = CHR ''.'' then dropWhile isdigit r else s2)
      in if ip = [] \<and> fp = [] then None
         else
           (let m = real (digits_value (ip @ fp)) / 10 ^ length fp;
                (eneg, ed) = take_exponent s3;
                v = (if eneg then m / 10 ^ digits_value ed else m * 10 ^ digits_value ed)
            in Some (if neg then - v else v)))"


section \<open>Facts about the receive loop\<close>

lemma written_append: "written (xs @ ys) = written xs @ written ys"
  by (induction xs rule: written.induct) simp_all

lemma handle_response_state:
  "snd (handle_response stof r s) = s\<lparr>waiting_for_idn := waiting_for_idn s \<and> r = []\<rparr>"
  by (simp add: handle_response_def parse_numeric_response_def split: option.splits)

lemma handle_response_written: "written (fst (handle_response stof r s)) = []"
  by (simp add: handle_response_def parse_numeric_response_def split: option.splits)


lemma loop_byte_unfold:
  "loop_byte stof c s =
     (if c = LF then
        (if rx_buffer s \<noteq> [] then
           (fst (handle_response stof (rx_buffer s) s),
            (snd (handle_response stof (rx_buffer s) s))\<lparr>rx_buffer := []\<rparr>)
         else ([], s))
      else if c \<noteq> CR then ([], s\<lparr>rx_buffer := rx_buffer s @ [c]\<rparr>)
      else ([], s))"
  by (simp add: loop_byte_def split: prod.splits)

lemma loop_byte_state:
  "snd (loop_byte stof c s) =
     s\<lparr>rx_buffer := (if c = LF then [] else if c = CR then rx_buffer s else rx_buffer s @ [c]),
       waiting_for_idn := waiting_for_idn s \<and> \<not> (c = LF \<and> rx_buffer s \<noteq> [])\<rparr>"
  by (simp add: loop_byte_unfold handle_response_state)

lemma loop_byte_written: "written (fst (loop_byte stof c s)) = []"
  by (simp add: loop_byte_unfold handle_response_written)

lemma rx_loop_Cons:
  "rx_loop stof (c # cs) s =
     (fst (loop_byte stof c s) @ fst (rx_loop stof cs (snd (loop_byte stof c s))),
      snd (rx_loop stof cs (snd (loop_byte stof c s))))"
  by (simp split: prod.splits)

lemma rx_loop_append:
  "rx_loop stof (as @ bs) s =
     (fst (rx_loop stof as s) @ fst (rx_loop stof bs (snd (rx_loop stof as s))),
      snd (rx_loop stof bs (snd (rx_loop stof as s))))"
  by (induction as arbitrary: s) (simp_all add: rx_loop_Cons del: rx_loop.simps(2))

lemma rx_loop_no_LF:
  "LF \<notin> set bytes \<Longrightarrow>
   rx_loop stof bytes s = ([], s\<lparr>rx_buffer := rx_buffer s @ filter (\<lambda>c. c \<noteq> CR) bytes\<rparr>)"
  by (induction bytes arbitrary: s) (auto simp: loop_byte_def)

lemma rx_loop_state:
  "\<exists>b w. snd (rx_loop stof bytes s) = s\<lparr>rx_buffer := b, waiting_for_idn := w\<rparr>"
proof (induction bytes arbitrary: s)
  case Nil
  have "s = s\<lparr>rx_buffer := rx_buffer s, waiting_for_idn := waiting_for_idn s\<rparr>" by simp
  then show ?case by (metis rx_loop.simps(1) snd_conv)
next
  case (Cons c cs)
  obtain b w where "snd (rx_loop stof cs (snd (loop_byte stof c s)))
      = (snd (loop_byte stof c s))\<lparr>rx_buffer := b, waiting_for_idn := w\<rparr>"
    using Cons.IH by blast
  then have "snd (rx_loop stof (c # cs) s) = s\<lparr>rx_buffer := b, waiting_for_idn := w\<rparr>"
    by (simp add: rx_loop_Cons loop_byte_state del: rx_loop.simps(2))
  then show ?case by blast
qed

lemma rx_loop_written: "written (fst (rx_loop stof bytes s)) = []"
  by (induction bytes arbitrary: s)
     (simp_all add: rx_loop_Cons written_append loop_byte_written del: rx_loop.simps(2))

lemma rx_loop_last_query: "last_query (snd (rx_loop stof bytes s)) = last_query s"
  using rx_loop_state [of stof bytes s] by auto

lemma rx_loop_current_function:
  "current_function (snd (rx_loop stof bytes s)) = current_function s"
  using rx_loop_state [of stof bytes s] by auto



lemma query_measurement_unfold:
  "query_measurement s =
     ([WriteStr ((case current_function s of
          VOLTAGE_DC \<Rightarrow> ''MEAS:VOLT:DC?'' | VOLTAGE_AC \<Rightarrow> ''MEAS:VOLT:AC?''
        | CURRENT_DC \<Rightarrow> ''MEAS:CURR:DC?'' | CURRENT_AC \<Rightarrow> ''MEAS:CURR:AC?''
        | RESISTANCE \<Rightarrow> ''MEAS:RES?'' | FREQUENCY \<Rightarrow> ''MEAS:FREQ?''
        | CAPACITANCE \<Rightarrow> ''MEAS:CAP?'' | TEMPERATURE \<Rightarrow> ''MEAS:TEMP?''
        | CONTINUITY \<Rightarrow> ''MEAS:CONT?'' | DIODE \<Rightarrow> ''MEAS:DIOD?''
        | UNKNOWN \<Rightarrow> ''MEAS?'') @ [CR, LF])], s)"
  by (simp add: query_measurement_def send_command_def split: MeasurementFunction.splits)

lemma loop_dmm_unfold:
  "loop_dmm stof bytes now now' s =
     (if query_interval \<le> now - last_query s then
        (fst (rx_loop stof bytes s) @ fst (query_measurement (snd (rx_loop stof bytes s))),
         (snd (rx_loop stof bytes s))\<lparr>last_query := now'\<rparr>)
      else rx_loop stof bytes s)"
  by (simp add: loop_dmm_def case_prod_beta rx_loop_last_query query_measurement_unfold)

lemma run_Cons:
  "run stof (c # cs) s =
     (fst (do_call stof c s) @ fst (run stof cs (snd (do_call stof c s))),
      snd (run stof cs (snd (do_call stof c s))))"
  by (simp split: prod.splits)

lemma set_function_unfold:
  "set_function function s =
     (WriteStr (function @ [CR, LF]) #
        (case function_sensor s of Some p \<Rightarrow> [PublishText p function] | None \<Rightarrow> []),
      s\<lparr>current_function := parse_function function\<rparr>)"
  by (simp add: set_function_def send_command_def)





lemmas stof_dec_defs =
  stof_dec_def take_sign_def take_exponent_def isspace_def isdigit_def digits_value_def


lemma written_query_measurement:
  "length (written (fst (query_measurement s :: 'f effect list \<times> SCPIDMM))) = 1"
  by (simp add: query_measurement_unfold)

lemma query_measurement_rx_loop:
  "fst (query_measurement (snd (rx_loop stof bytes s)) :: 'f effect list \<times> SCPIDMM)
     = fst (query_measurement s)"
  by (simp add: query_measurement_unfold rx_loop_current_function)

lemma do_call_rx_buffer:
  "(\<forall>bytes now now'. c \<noteq> Loop bytes now now') \<Longrightarrow>
   rx_buffer (snd (do_call stof c s)) = rx_buffer s"
  by (cases c)
     (simp_all add: set_value_sensor_def set_secondary_value_sensor_def set_function_sensor_def
        set_range_sensor_def set_status_sensor_def set_idn_sensor_def setup_dmm_def
        send_command_def set_function_unfold)

lemma loop_dmm_rx_buffer:
  "rx_buffer (snd (loop_dmm stof bytes now now' s)) = rx_buffer (snd (rx_loop stof bytes s))"
  by (simp add: loop_dmm_unfold)

lemma rx_loop_rx_buffer_after_LF:
  "LF \<notin> set cs \<Longrightarrow>
   rx_buffer (snd (rx_loop stof (bs @ LF # cs) s)) = filter (\<lambda>c. c \<noteq> CR) cs"
proof -
  assume cs: "LF \<notin> set cs"
  let ?s1 = "snd (rx_loop stof bs s)"
  let ?s2 = "snd (loop_byte stof LF ?s1)"
  have "rx_buffer ?s2 = []" by (simp add: loop_byte_state)
  moreover have "snd (rx_loop stof (bs @ LF # cs) s) = snd (rx_loop stof cs ?s2)"
    by (simp add: rx_loop_append rx_loop_Cons del: rx_loop.simps(2))
  ultimately show ?thesis
    using rx_loop_no_LF [OF cs, of stof ?s2] by simp
qed

lemma rx_loop_sensors:
  "idn_sensor (snd (rx_loop stof bytes s)) = idn_sensor s
   \<and> status_sensor (snd (rx_loop stof bytes s)) = status_sensor s
   \<and> function_sensor (snd (rx_loop stof bytes s)) = function_sensor s"
  using rx_loop_state [of stof bytes s] by auto

lemma do_call_sensors:
  "idn_sensor (snd (do_call stof c s)) = idn_sensor s
   \<and> status_sensor (snd (do_call stof c s)) = status_sensor s
   \<and> function_sensor (snd (do_call stof c s))
       = (case c of Set_function_sensor q \<Rightarrow> q | _ \<Rightarrow> function_sensor s)"
  by (cases c)
     (simp_all add: set_value_sensor_def set_secondary_value_sensor_def set_function_sensor_def
        set_range_sensor_def set_status_sensor_def set_idn_sensor_def setup_dmm_def
        send_command_def set_function_unfold loop_dmm_unfold rx_loop_sensors)

lemma run_sensors:
  "idn_sensor (snd (run stof calls s)) = idn_sensor s
   \<and> status_sensor (snd (run stof calls s)) = status_sensor s"
  by (induction calls arbitrary: s)
     (simp_all add: run_Cons do_call_sensors del: run.simps(2))

lemma rx_loop_no_idn_sensor:
  "idn_sensor s = None \<Longrightarrow> e \<in> set (fst (rx_loop stof bytes s)) \<Longrightarrow> \<not> is_text_publish e"
proof (induction bytes arbitrary: s)
  case Nil
  then show ?case by simp
next
  case (Cons c cs)
  let ?s1 = "snd (loop_byte stof c s)"
  have n1: "idn_sensor ?s1 = None" using Cons.prems(1) by (simp add: loop_byte_state)
  from Cons.prems(2) have "e \<in> set (fst (loop_byte stof c s)) \<or> e \<in> set (fst (rx_loop stof cs ?s1))"
    by (auto simp: rx_loop_Cons simp del: rx_loop.simps(2))
  then show ?case
  proof
    assume "e \<in> set (fst (loop_byte stof c s))"
    then show ?thesis
      using Cons.prems(1)
      by (auto simp: loop_byte_unfold handle_response_def parse_numeric_response_def
            split: if_splits option.splits)
  next
    assume "e \<in> set (fst (rx_loop stof cs ?s1))"
    then show ?thesis using Cons.IH [OF n1] by blast
  qed
qed

lemma do_call_text_publish:
  assumes "idn_sensor s = None" and "e \<in> set (fst (do_call stof c s))" and "is_text_publish e"
  shows "\<exists>p f. e = PublishText p f \<and> c = Set_function f \<and> function_sensor s = Some p"
proof (cases c)
  case (Loop bytes now now')
  then have "e \<in> set (fst (rx_loop stof bytes s))
      \<or> e \<in> set (fst (query_measurement (snd (rx_loop stof bytes s))))"
    using assms(2) by (auto simp: loop_dmm_unfold split: if_splits)
  then show ?thesis
    using rx_loop_no_idn_sensor [OF assms(1), of e stof bytes] assms(3)
    by (auto simp: query_measurement_unfold)
next
  case (Set_function f)
  then show ?thesis
    using assms(2,3) by (auto simp: set_function_unfold split: option.splits)
qed (use assms in \<open>auto simp: setup_dmm_def send_command_def\<close>)

lemma run_text_publish:
  "idn_sensor s = None \<Longrightarrow> e \<in> set (fst (run stof calls s)) \<Longrightarrow> is_text_publish e \<Longrightarrow>
   \<exists>p f. e = PublishText p f \<and> Set_function f \<in> set calls
     \<and> (function_sensor s = Some p \<or> Set_function_sensor (Some p) \<in> set calls)"
proof (induction calls arbitrary: s)
  case Nil
  then show ?case by simp
next
  case (Cons c cs)
  let ?s1 = "snd (do_call stof c s)"
  have n1: "idn_sensor ?s1 = None" using Cons.prems(1) by (simp add: do_call_sensors)
  from Cons.prems(2) have "e \<in> set (fst (do_call stof c s)) \<or> e \<in> set (fst (run stof cs ?s1))"
    by (auto simp: run_Cons simp del: run.simps(2))
  then show ?case
  proof
    assume "e \<in> set (fst (do_call stof c s))"
    then show ?thesis
      using do_call_text_publish [OF Cons.prems(1) _ Cons.prems(3)] by fastforce
  next
    assume "e \<in> set (fst (run stof cs ?s1))"
    then obtain p f where pf: "e = PublishText p f" "Set_function f \<in> set cs"
        "function_sensor ?s1 = Some p \<or> Set_function_sensor (Some p) \<in> set cs"
      using Cons.IH [OF n1 _ Cons.prems(3)] by blast
    have fs: "function_sensor ?s1
        = (case c of Set_function_sensor q \<Rightarrow> q | _ \<Rightarrow> function_sensor s)"
      using do_call_sensors [of stof c s] by blast
    have "function_sensor ?s1 = Some p \<Longrightarrow>
        function_sensor s = Some p \<or> c = Set_function_sensor (Some p)"
      unfolding fs by (cases c) simp_all
    then show ?thesis using pf by auto
  qed
qed







section \<open>Startup\<close>

text \<open>
  C8. \<open>setup()\<close> writes to the instrument link exactly three strings, in this order:
  the identification query, the reset command and the remote-enable command, each
  followed by CR LF. Nothing is read and no member changes between or after the writes:
  no acknowledgement is waited for or checked.
\<close>

theorem setup_sends_idn_rst_rem:
  "written (fst (setup_dmm s :: 'f effect list \<times> SCPIDMM))
     = [''*IDN?'' @ [CHR 0x0D, CHR 0x0A],
        ''*RST'' @ [CHR 0x0D, CHR 0x0A],
        ''SYST:REM'' @ [CHR 0x0D, CHR 0x0A]]
   \<and> snd (setup_dmm s :: 'f effect list \<times> SCPIDMM) = s"
  by (simp add: setup_dmm_def CR_def LF_def)

section \<open>Line framing\<close>

text \<open>
  C2. What one byte does in the receive loop. A carriage return changes nothing. A line
  feed on a non-empty buffer hands the buffer, as one line, to \<open>handle_response_\<close> and
  empties the buffer; on an empty buffer it does nothing. Any other byte is appended to
  the buffer. The bytes of \<open>5.123456E-03\<close> followed by CR LF, read from an empty
  buffer, give exactly one call of \<open>handle_response_\<close>, with the line \<open>5.123456E-03\<close>,
  and leave the buffer empty.
\<close>

theorem line_framer_bytes:
  "loop_byte stof CR s = ([], s)
   \<and> (rx_buffer s \<noteq> [] \<longrightarrow>
        loop_byte stof LF s =
          (fst (handle_response stof (rx_buffer s) s),
           (snd (handle_response stof (rx_buffer s) s))\<lparr>rx_buffer := []\<rparr>))
   \<and> (rx_buffer s = [] \<longrightarrow> loop_byte stof LF s = ([], s))
   \<and> (c \<noteq> CR \<and> c \<noteq> LF \<longrightarrow> loop_byte stof c s = ([], s\<lparr>rx_buffer := rx_buffer s @ [c]\<rparr>))
   \<and> (rx_buffer s = [] \<longrightarrow>
        rx_loop stof (''5.123456E-03'' @ [CR, LF]) s =
          (fst (handle_response stof ''5.123456E-03'' s),
           (snd (handle_response stof ''5.123456E-03'' s))\<lparr>rx_buffer := []\<rparr>))
   \<and> CR = CHR 0x0D \<and> LF = CHR 0x0A"
proof -
  have a: "loop_byte stof CR s = ([], s)"
    by (simp add: loop_byte_unfold CR_def LF_def)
  have b: "rx_buffer s \<noteq> [] \<longrightarrow>
        loop_byte stof LF s =
          (fst (handle_response stof (rx_buffer s) s),
           (snd (handle_response stof (rx_buffer s) s))\<lparr>rx_buffer := []\<rparr>)"
    by (simp add: loop_byte_unfold)
  have c: "rx_buffer s = [] \<longrightarrow> loop_byte stof LF s = ([], s)"
    by (simp add: loop_byte_unfold)
  have d: "c \<noteq> CR \<and> c \<noteq> LF \<longrightarrow> loop_byte stof c s = ([], s\<lparr>rx_buffer := rx_buffer s @ [c]\<rparr>)"
    by (simp add: loop_byte_unfold)
  have e: "rx_buffer s = [] \<longrightarrow>
        rx_loop stof (''5.123456E-03'' @ [CR, LF]) s =
          (fst (handle_response stof ''5.123456E-03'' s),
           (snd (handle_response stof ''5.123456E-03'' s))\<lparr>rx_buffer := []\<rparr>)"
  proof
    assume empty: "rx_buffer s = []"
    let ?line = "''5.123456E-03''"
    let ?s1 = "s\<lparr>rx_buffer := ?line\<rparr>"
    have noLF: "LF \<notin> set (?line @ [CR])" by (simp add: LF_def CR_def)
    have "filter (\<lambda>c. c \<noteq> CR) (?line @ [CR]) = ?line" by (simp add: CR_def)
    with rx_loop_no_LF [OF noLF, of stof s] empty
    have pre: "rx_loop stof (?line @ [CR]) s = ([], ?s1)" by simp
    have hr: "handle_response stof ?line ?s1 =
        (fst (handle_response stof ?line s), (snd (handle_response stof ?line s))\<lparr>rx_buffer := ?line\<rparr>)"
      by (simp add: handle_response_def parse_numeric_response_def split: option.splits)
    have "rx_loop stof ((?line @ [CR]) @ [LF]) s =
        (fst (handle_response stof ?line s), (snd (handle_response stof ?line s))\<lparr>rx_buffer := []\<rparr>)"
      unfolding rx_loop_append [of stof "?line @ [CR]" "[LF]" s] pre
      by (simp add: loop_byte_unfold hr)
    then show "rx_loop stof (?line @ [CR, LF]) s =
        (fst (handle_response stof ?line s), (snd (handle_response stof ?line s))\<lparr>rx_buffer := []\<rparr>)"
      by simp
  qed
  show ?thesis using a b c d e by (simp add: CR_def LF_def)
qed

text \<open>The statement at concrete objects, with the decimal parser for \<open>stof\<close>.\<close>

theorem line_framer_bytes_witness:
  "loop_byte stof_dec LF (new_SCPIDMM\<lparr>waiting_for_idn := False, rx_buffer := ''X''\<rparr>)
     = ([LogW ''scpi_dmm'' ''Non-numeric response: X''], new_SCPIDMM\<lparr>waiting_for_idn := False\<rparr>)
   \<and> loop_byte stof_dec LF new_SCPIDMM = ([], new_SCPIDMM)
   \<and> loop_byte stof_dec (CHR ''5'') new_SCPIDMM = ([], new_SCPIDMM\<lparr>rx_buffer := ''5''\<rparr>)
   \<and> rx_loop stof_dec (''5.123456E-03'' @ [CR, LF])
        (new_SCPIDMM\<lparr>waiting_for_idn := False, value_sensor := Some 1\<rparr>)
      = ([PublishValue 1 0.005123456], new_SCPIDMM\<lparr>waiting_for_idn := False, value_sensor := Some 1\<rparr>)"
proof -
  let ?sx = "new_SCPIDMM\<lparr>waiting_for_idn := False, rx_buffer := ''X''\<rparr>"
  let ?sv = "new_SCPIDMM\<lparr>waiting_for_idn := False, value_sensor := Some 1\<rparr>"
  have x: "rx_buffer ?sx \<noteq> []" and n: "rx_buffer new_SCPIDMM = []" and v: "rx_buffer ?sv = []"
    by (simp_all add: new_SCPIDMM_def)
  have c5: "CHR ''5'' \<noteq> CR \<and> CHR ''5'' \<noteq> LF"
    by (simp add: CR_def LF_def)
  have hx: "handle_response stof_dec ''X'' ?sx
      = ([LogW ''scpi_dmm'' ''Non-numeric response: X''], ?sx)"
    by (simp add: handle_response_def parse_numeric_response_def c_str_def stof_dec_defs)
  have hv: "handle_response stof_dec ''5.123456E-03'' ?sv = ([PublishValue 1 0.005123456], ?sv)"
    by (simp add: handle_response_def parse_numeric_response_def stof_dec_defs)
  have rx: "rx_buffer ?sx = ''X''"
    by simp
  have "loop_byte stof_dec LF ?sx = ([LogW ''scpi_dmm'' ''Non-numeric response: X''], ?sx\<lparr>rx_buffer := []\<rparr>)"
    using line_framer_bytes [where stof = stof_dec and c = "CHR ''5''" and s = ?sx] x
    unfolding rx hx by simp
  moreover have "?sx\<lparr>rx_buffer := []\<rparr> = new_SCPIDMM\<lparr>waiting_for_idn := False\<rparr>"
    by (simp add: new_SCPIDMM_def)
  moreover have "loop_byte stof_dec LF new_SCPIDMM = ([], new_SCPIDMM)
      \<and> loop_byte stof_dec (CHR ''5'') new_SCPIDMM = ([], new_SCPIDMM\<lparr>rx_buffer := ''5''\<rparr>)"
    using line_framer_bytes [where stof = stof_dec and c = "CHR ''5''" and s = new_SCPIDMM] n c5
    by (simp del: rx_loop.simps)
  moreover have "rx_loop stof_dec (''5.123456E-03'' @ [CR, LF]) ?sv = ([PublishValue 1 0.005123456], ?sv\<lparr>rx_buffer := []\<rparr>)"
    using line_framer_bytes [where stof = stof_dec and c = "CHR ''5''" and s = ?sv] v
    unfolding hv by (simp del: rx_loop.simps)
  moreover have "?sv\<lparr>rx_buffer := []\<rparr> = ?sv"
    by (simp add: new_SCPIDMM_def)
  ultimately show ?thesis by (simp del: rx_loop.simps)
qed

section \<open>Classifying a line\<close>

text \<open>
  C3. Handling a non-empty line when the object no longer waits for the identification.
  If \<open>stof\<close> returns \<open>v\<close>, the only effect is \<open>publish_state(v)\<close> on the value sensor
  (and no effect at all when no value sensor is bound); if \<open>stof\<close> throws, the only
  effect is the warning in the log. In both cases the object is returned unchanged, so
  the flag, the current function, the buffer and the time of the last query are what they
  were. With the decimal parser, the line \<open>5.123456E-03\<close> publishes 0.005123456 and the
  line \<open>ERROR\<close> is only logged.
\<close>

theorem numeric_response_handling:
  "(\<not> waiting_for_idn s \<and> r \<noteq> [] \<and> stof r = Some v \<and> value_sensor s = Some p \<longrightarrow>
      handle_response stof r s = ([PublishValue p v], s))
   \<and> (\<not> waiting_for_idn s \<and> r \<noteq> [] \<and> stof r = Some v \<and> value_sensor s = None \<longrightarrow>
      handle_response stof r s = ([], s))
   \<and> (\<not> waiting_for_idn s \<and> r \<noteq> [] \<and> stof r = None \<longrightarrow>
      handle_response stof r s = ([LogW ''scpi_dmm'' (''Non-numeric response: '' @ c_str r)], s))
   \<and> (\<not> waiting_for_idn s \<and> value_sensor s = Some p \<longrightarrow>
      handle_response stof_dec ''5.123456E-03'' s = ([PublishValue p 0.005123456], s))
   \<and> (\<not> waiting_for_idn s \<longrightarrow>
      handle_response stof_dec ''ERROR'' s
        = ([LogW ''scpi_dmm'' ''Non-numeric response: ERROR''], s))"
proof -
  have num: "stof_dec ''5.123456E-03'' = Some 0.005123456"
    by (simp add: stof_dec_defs)
  have err: "stof_dec ''ERROR'' = None"
    by (simp add: stof_dec_defs)
  have cs: "c_str ''ERROR'' = ''ERROR''"
    by (simp add: c_str_def)
  show ?thesis
    by (simp add: handle_response_def parse_numeric_response_def num err cs)
qed

text \<open>The statement at concrete objects and lines.\<close>

theorem numeric_response_handling_witness:
  "handle_response stof_dec ''-12.5'' (new_SCPIDMM\<lparr>waiting_for_idn := False, value_sensor := Some 1\<rparr>)
     = ([PublishValue 1 (-12.5)], new_SCPIDMM\<lparr>waiting_for_idn := False, value_sensor := Some 1\<rparr>)
   \<and> handle_response stof_dec ''-12.5'' (new_SCPIDMM\<lparr>waiting_for_idn := False\<rparr>)
     = ([], new_SCPIDMM\<lparr>waiting_for_idn := False\<rparr>)
   \<and> handle_response stof_dec ''OVERLOAD'' (new_SCPIDMM\<lparr>waiting_for_idn := False\<rparr>)
     = ([LogW ''scpi_dmm'' ''Non-numeric response: OVERLOAD''], new_SCPIDMM\<lparr>waiting_for_idn := False\<rparr>)
   \<and> handle_response stof_dec ''5.123456E-03''
        (new_SCPIDMM\<lparr>waiting_for_idn := False, value_sensor := Some 1\<rparr>)
     = ([PublishValue 1 0.005123456], new_SCPIDMM\<lparr>waiting_for_idn := False, value_sensor := Some 1\<rparr>)
   \<and> handle_response stof_dec ''ERROR'' (new_SCPIDMM\<lparr>waiting_for_idn := False\<rparr>)
     = ([LogW ''scpi_dmm'' ''Non-numeric response: ERROR''], new_SCPIDMM\<lparr>waiting_for_idn := False\<rparr>)"
proof -
  let ?sv = "new_SCPIDMM\<lparr>waiting_for_idn := False, value_sensor := Some 1\<rparr>"
  let ?sn = "new_SCPIDMM\<lparr>waiting_for_idn := False\<rparr>"
  have num: "stof_dec ''-12.5'' = Some (-12.5)"
    by (simp add: stof_dec_defs)
  have ovl: "stof_dec ''OVERLOAD'' = None"
    by (simp add: stof_dec_defs)
  have cs: "c_str ''OVERLOAD'' = ''OVERLOAD''"
    by (simp add: c_str_def)
  have sv: "\<not> waiting_for_idn ?sv \<and> value_sensor ?sv = Some 1"
    and sn: "\<not> waiting_for_idn ?sn \<and> value_sensor ?sn = None"
    by (simp_all add: new_SCPIDMM_def)
  have "handle_response stof_dec ''-12.5'' ?sv = ([PublishValue 1 (-12.5)], ?sv)"
    using numeric_response_handling [where stof = stof_dec and r = "''-12.5''" and v = "-12.5"
        and p = 1 and s = ?sv] num sv by simp
  moreover have "handle_response stof_dec ''5.123456E-03'' ?sv = ([PublishValue 1 0.005123456], ?sv)"
    using numeric_response_handling [where stof = stof_dec and r = "''-12.5''" and v = "-12.5"
        and p = 1 and s = ?sv] sv by simp
  moreover have "handle_response stof_dec ''-12.5'' ?sn = ([], ?sn)
      \<and> handle_response stof_dec ''ERROR'' ?sn = ([LogW ''scpi_dmm'' ''Non-numeric response: ERROR''], ?sn)"
    using numeric_response_handling [where stof = stof_dec and r = "''-12.5''" and v = "-12.5"
        and p = 1 and s = ?sn] num sn by simp
  moreover have "handle_response stof_dec ''OVERLOAD'' ?sn
      = ([LogW ''scpi_dmm'' ''Non-numeric response: OVERLOAD''], ?sn)"
    using numeric_response_handling [where stof = stof_dec and r = "''OVERLOAD''" and v = "-12.5"
        and p = 1 and s = ?sn] ovl sn cs by simp
  ultimately show ?thesis by simp
qed




section \<open>Function parsing\<close>



section \<open>Polling\<close>

text \<open>
  C5. One call of \<open>loop()\<close>, with \<open>now\<close> the clock reading that is compared and
  \<open>now'\<close> the reading that is stored. If \<open>now - last_query_\<close> (in \<open>uint32_t\<close>) is at
  least 100, exactly one string is written to the link, the query of
  \<open>query_measurement_\<close>, and \<open>last_query_\<close> becomes \<open>now'\<close>; otherwise nothing is
  written and \<open>last_query_\<close> keeps its value. Never more than one string is written in
  one call, however long ago the last query was. With ticks at 0, 50, 100, 150 and 250 ms
  from \<open>last_query_ = 0\<close>, the numbers of queries per tick are 0, 0, 1, 0, 1.
\<close>

theorem poll_once_per_elapsed_interval:
  "(100 \<le> now - last_query s \<longrightarrow>
      written (fst (loop_dmm (stof :: string \<Rightarrow> 'f option) bytes now now' s))
        = written (fst (query_measurement s :: 'f effect list \<times> SCPIDMM))
      \<and> length (written (fst (loop_dmm stof bytes now now' s))) = 1
      \<and> last_query (snd (loop_dmm stof bytes now now' s)) = now')
   \<and> (\<not> 100 \<le> now - last_query s \<longrightarrow>
      written (fst (loop_dmm stof bytes now now' s)) = []
      \<and> last_query (snd (loop_dmm stof bytes now now' s)) = last_query s)
   \<and> length (written (fst (loop_dmm stof bytes now now' s))) \<le> 1
   \<and> (last_query s = 0 \<longrightarrow>
        map length (ticks stof [0, 50, 100, 150, 250] s) = [0, 0, 1, 0, 1])"
proof -
  let ?r = "loop_dmm stof bytes now now' s"
  have fire: "100 \<le> now - last_query s \<Longrightarrow>
      written (fst ?r) = written (fst (query_measurement s :: 'f effect list \<times> SCPIDMM))
      \<and> length (written (fst ?r)) = 1 \<and> last_query (snd ?r) = now'"
    by (simp add: loop_dmm_unfold query_interval_def written_append rx_loop_written
          query_measurement_rx_loop written_query_measurement)
  have idle: "\<not> 100 \<le> now - last_query s \<Longrightarrow>
      written (fst ?r) = [] \<and> last_query (snd ?r) = last_query s"
    by (simp add: loop_dmm_unfold query_interval_def rx_loop_written rx_loop_last_query)
  have most: "length (written (fst ?r)) \<le> 1"
  proof (cases "100 \<le> now - last_query s")
    case True
    then have "length (written (fst ?r)) = 1" using fire by blast
    then show ?thesis by simp
  next
    case False
    then have "written (fst ?r) = []" using idle by blast
    then show ?thesis by simp
  qed
  have seq: "map length (ticks stof [0, 50, 100, 150, 250] s) = [0, 0, 1, 0, 1]"
    if "last_query s = 0"
    using that
    by (simp add: loop_dmm_unfold query_interval_def query_measurement_unfold)
  show ?thesis
    using fire idle most seq by blast
qed

text \<open>A late tick, an early tick, and the tick sequence on a new object.\<close>

theorem poll_once_per_elapsed_interval_witness:
  "written (fst (loop_dmm stof_dec [] 350 351 (new_SCPIDMM\<lparr>last_query := 100\<rparr>)))
     = [''MEAS?'' @ [CR, LF]]
   \<and> last_query (snd (loop_dmm stof_dec [] 350 351 (new_SCPIDMM\<lparr>last_query := 100\<rparr>))) = 351
   \<and> written (fst (loop_dmm stof_dec [] 150 151 (new_SCPIDMM\<lparr>last_query := 100\<rparr>))) = []
   \<and> last_query (snd (loop_dmm stof_dec [] 150 151 (new_SCPIDMM\<lparr>last_query := 100\<rparr>))) = 100
   \<and> map length (ticks stof_dec [0, 50, 100, 150, 250] new_SCPIDMM) = [0, 0, 1, 0, 1]"
proof -
  let ?s = "new_SCPIDMM\<lparr>last_query := 100\<rparr>"
  have late: "(100 :: 32 word) \<le> 350 - last_query ?s"
    and early: "\<not> (100 :: 32 word) \<le> 150 - last_query ?s"
    and zero: "last_query new_SCPIDMM = 0"
    by (simp_all add: new_SCPIDMM_def)
  have q: "written (fst (query_measurement ?s :: real effect list \<times> SCPIDMM)) = [''MEAS?'' @ [CR, LF]]"
    by (simp add: query_measurement_unfold new_SCPIDMM_def)
  have "written (fst (loop_dmm stof_dec [] 350 351 ?s)) = [''MEAS?'' @ [CR, LF]]
      \<and> last_query (snd (loop_dmm stof_dec [] 350 351 ?s)) = 351"
    using poll_once_per_elapsed_interval [where stof = stof_dec and bytes = "[]" and now = 350
        and now' = 351 and s = ?s] late q by simp
  moreover have "written (fst (loop_dmm stof_dec [] 150 151 ?s)) = []
      \<and> last_query (snd (loop_dmm stof_dec [] 150 151 ?s)) = 100"
    using poll_once_per_elapsed_interval [where stof = stof_dec and bytes = "[]" and now = 150
        and now' = 151 and s = ?s] early by (simp add: new_SCPIDMM_def)
  moreover have "map length (ticks stof_dec [0, 50, 100, 150, 250] new_SCPIDMM) = [0, 0, 1, 0, 1]"
    using poll_once_per_elapsed_interval [where stof = stof_dec and bytes = "[]" and now = 0
        and now' = 0 and s = new_SCPIDMM] zero by blast
  ultimately show ?thesis
    by blast
qed

text \<open>
  C6, as the specification states it, fails: the query of \<open>query_measurement_\<close> for
  \<open>VOLTAGE_DC\<close> is \<open>MEAS:VOLT:DC?\<close>, while the command set of the key \<open>OWON_XDM\<close>
  gives \<open>MEAS:VOLT?\<close>.
\<close>

theorem poll_query_device_override_counterexample:
  "written (fst (query_measurement (new_SCPIDMM\<lparr>current_function := VOLTAGE_DC\<rparr>)
      :: real effect list \<times> SCPIDMM))
     \<noteq> [command_for (lookup ''OWON_XDM'') VOLTAGE_DC @ [CR, LF]]"
  by (simp add: query_measurement_unfold command_for_def lookup_def DEVICE_COMMANDS_def
        DeviceCommands_default_def)

text \<open>
  C6, amended. For every current function the query written by \<open>query_measurement_\<close> is
  the string of the default command set for that function, followed by CR LF; the class
  has no device type and the entries of \<open>DEVICE_COMMANDS\<close> play no part. For \<open>UNKNOWN\<close>
  the query is \<open>MEAS?\<close>.
\<close>

theorem poll_query_is_generic_default:
  "query_measurement s
     = ([WriteStr (command_for DeviceCommands_default (current_function s) @ [CR, LF])], s)
   \<and> command_for DeviceCommands_default UNKNOWN = ''MEAS?''"
  by (simp add: query_measurement_unfold command_for_def DeviceCommands_default_def
        split: MeasurementFunction.splits)

section \<open>Command table lookup\<close>

text \<open>
  C7. \<open>lookup\<close> returns the entry stored under the device type when the device type is
  one of the keys, which are exactly \<open>OWON_XDM\<close> and \<open>KEYSIGHT_34460A\<close>, and the
  default command set for every other string. It is a total function from strings to
  command sets: it has no error value and no state.
\<close>

theorem lookup_total_with_default:
  "(map_of DEVICE_COMMANDS device_type = Some cmds \<longrightarrow> lookup device_type = cmds)
   \<and> (device_type \<notin> set (map fst DEVICE_COMMANDS) \<longrightarrow>
        lookup device_type = DeviceCommands_default)
   \<and> map fst DEVICE_COMMANDS = [''OWON_XDM'', ''KEYSIGHT_34460A'']
   \<and> distinct (map fst DEVICE_COMMANDS)"
  by (simp add: lookup_def DEVICE_COMMANDS_def)

text \<open>A key, the same key in lower case, and a string that is no key.\<close>

theorem lookup_total_with_default_witness:
  "lookup ''OWON_XDM''
     = DeviceCommands_default
         \<lparr> measure_voltage_dc := ''MEAS:VOLT?'', measure_current_dc := ''MEAS:CURR?'',
           fast_mode := ''RATE F'', init_commands := [''RATE F'', ''RATE?''] \<rparr>
   \<and> lookup ''owon_xdm'' = DeviceCommands_default
   \<and> lookup ''auto'' = DeviceCommands_default"
proof -
  let ?owon = "DeviceCommands_default
         \<lparr> measure_voltage_dc := ''MEAS:VOLT?'', measure_current_dc := ''MEAS:CURR?'',
           fast_mode := ''RATE F'', init_commands := [''RATE F'', ''RATE?''] \<rparr>"
  have k: "map_of DEVICE_COMMANDS ''OWON_XDM'' = Some ?owon"
    by (simp add: DEVICE_COMMANDS_def)
  have u: "''owon_xdm'' \<notin> set (map fst DEVICE_COMMANDS)"
    "''auto'' \<notin> set (map fst DEVICE_COMMANDS)"
    by (simp_all add: DEVICE_COMMANDS_def)
  show ?thesis
    using lookup_total_with_default [where device_type = "''OWON_XDM''" and cmds = ?owon]
      lookup_total_with_default [where device_type = "''owon_xdm''" and cmds = ?owon]
      lookup_total_with_default [where device_type = "''auto''" and cmds = ?owon]
      k u
    by blast
qed

section \<open>The receive buffer\<close>

text \<open>
  C9. A byte other than the line feed never shortens the buffer: the buffer afterwards is
  the old buffer, extended by the byte unless the byte is a carriage return. A line feed
  leaves the buffer empty, after the non-empty buffer has been handed to
  \<open>handle_response_\<close>. Over a whole call of \<open>loop()\<close> whose bytes contain no line
  feed, the buffer afterwards is the old buffer followed by all the bytes that are not
  carriage returns, so nothing received is lost between calls; after a line feed it
  holds what followed the last line feed. \<open>n\<close> ordinary bytes lengthen it by \<open>n\<close>, for
  every \<open>n\<close>: there is no bound. No call other than \<open>loop()\<close> changes the buffer.
\<close>

theorem rx_buffer_accumulates:
  "(c \<noteq> LF \<longrightarrow>
      rx_buffer (snd (loop_byte stof c s)) = rx_buffer s @ (if c = CR then [] else [c]))
   \<and> rx_buffer (snd (loop_byte stof LF s)) = []
   \<and> (rx_buffer s \<noteq> [] \<longrightarrow>
        fst (loop_byte stof LF s) = fst (handle_response stof (rx_buffer s) s))
   \<and> (LF \<notin> set bytes \<longrightarrow>
        rx_buffer (snd (loop_dmm stof bytes now now' s))
          = rx_buffer s @ filter (\<lambda>c. c \<noteq> CR) bytes)
   \<and> (LF \<notin> set bytes \<longrightarrow>
        rx_buffer (snd (loop_dmm stof (before @ LF # bytes) now now' s))
          = filter (\<lambda>c. c \<noteq> CR) bytes)
   \<and> (c \<noteq> CR \<and> c \<noteq> LF \<longrightarrow>
        length (rx_buffer (snd (loop_dmm stof (replicate n c) now now' s)))
          = length (rx_buffer s) + n)
   \<and> ((\<forall>bytes now now'. call \<noteq> Loop bytes now now') \<longrightarrow>
        rx_buffer (snd (do_call stof call s)) = rx_buffer s)"
proof -
  have a: "c \<noteq> LF \<longrightarrow>
      rx_buffer (snd (loop_byte stof c s)) = rx_buffer s @ (if c = CR then [] else [c])"
    by (simp add: loop_byte_state)
  have b: "rx_buffer (snd (loop_byte stof LF s)) = []"
    by (simp add: loop_byte_state)
  have d: "rx_buffer s \<noteq> [] \<longrightarrow>
        fst (loop_byte stof LF s) = fst (handle_response stof (rx_buffer s) s)"
    by (simp add: loop_byte_unfold)
  have e: "LF \<notin> set bytes \<longrightarrow>
        rx_buffer (snd (loop_dmm stof bytes now now' s))
          = rx_buffer s @ filter (\<lambda>c. c \<noteq> CR) bytes"
    by (simp add: loop_dmm_rx_buffer rx_loop_no_LF)
  have f: "LF \<notin> set bytes \<longrightarrow>
        rx_buffer (snd (loop_dmm stof (before @ LF # bytes) now now' s))
          = filter (\<lambda>c. c \<noteq> CR) bytes"
    by (simp add: loop_dmm_rx_buffer rx_loop_rx_buffer_after_LF del: rx_loop.simps)
  have g: "c \<noteq> CR \<and> c \<noteq> LF \<longrightarrow>
        length (rx_buffer (snd (loop_dmm stof (replicate n c) now now' s)))
          = length (rx_buffer s) + n"
  proof
    assume c: "c \<noteq> CR \<and> c \<noteq> LF"
    then have "LF \<notin> set (replicate n c)" by auto
    then have "rx_loop stof (replicate n c) s =
        ([], s\<lparr>rx_buffer := rx_buffer s @ filter (\<lambda>c. c \<noteq> CR) (replicate n c)\<rparr>)"
      by (rule rx_loop_no_LF)
    then show "length (rx_buffer (snd (loop_dmm stof (replicate n c) now now' s)))
        = length (rx_buffer s) + n"
      using c by (simp add: loop_dmm_rx_buffer)
  qed
  have h: "(\<forall>bytes now now'. call \<noteq> Loop bytes now now') \<longrightarrow>
        rx_buffer (snd (do_call stof call s)) = rx_buffer s"
    using do_call_rx_buffer [of call stof s] by blast
  show ?thesis
    using a b d e f g h by blast
qed

text \<open>The statement on a buffer that holds \<open>5.\<close>.\<close>

theorem rx_buffer_accumulates_witness:
  "rx_buffer (snd (loop_byte stof_dec (CHR ''1'') (new_SCPIDMM\<lparr>rx_buffer := ''5.''\<rparr>))) = ''5.1''
   \<and> fst (loop_byte stof_dec LF (new_SCPIDMM\<lparr>rx_buffer := ''5.''\<rparr>))
       = fst (handle_response stof_dec ''5.'' (new_SCPIDMM\<lparr>rx_buffer := ''5.''\<rparr>))
   \<and> rx_buffer (snd (loop_dmm stof_dec (''12'' @ [CR]) 0 0 (new_SCPIDMM\<lparr>rx_buffer := ''5.''\<rparr>)))
       = ''5.12''
   \<and> rx_buffer (snd (loop_dmm stof_dec (''x'' @ LF # ''12'' @ [CR]) 0 0
         (new_SCPIDMM\<lparr>rx_buffer := ''5.''\<rparr>))) = ''12''
   \<and> length (rx_buffer (snd (loop_dmm stof_dec (replicate 3 (CHR ''1'')) 0 0
         (new_SCPIDMM\<lparr>rx_buffer := ''5.''\<rparr>)))) = 5
   \<and> rx_buffer (snd (do_call stof_dec (Set_function ''RES'') (new_SCPIDMM\<lparr>rx_buffer := ''5.''\<rparr>)))
       = ''5.''"
proof -
  let ?s = "new_SCPIDMM\<lparr>rx_buffer := ''5.''\<rparr>"
  note T = rx_buffer_accumulates [where stof = stof_dec and s = ?s and c = "CHR ''1''"
      and bytes = "''12'' @ [CR]" and before = "''x''" and n = 3 and now = 0 and now' = 0
      and call = "Set_function ''RES''"]
  have c: "CHR ''1'' \<noteq> LF \<and> CHR ''1'' \<noteq> CR"
    and b: "LF \<notin> set (''12'' @ [CR])"
    and fl: "filter (\<lambda>c. c \<noteq> CR) (''12'' @ [CR]) = ''12''"
    by (simp_all add: CR_def LF_def)
  have s: "rx_buffer ?s = ''5.''"
    by simp
  have ne: "rx_buffer ?s \<noteq> []"
    by simp
  have nl: "\<forall>bytes now now'. Set_function ''RES'' \<noteq> Loop bytes now now'"
    by simp
  have "rx_buffer (snd (loop_byte stof_dec (CHR ''1'') ?s)) = rx_buffer ?s @ ''1''"
    using T c by simp
  moreover have "fst (loop_byte stof_dec LF ?s) = fst (handle_response stof_dec (rx_buffer ?s) ?s)"
    using T ne by blast
  moreover have "rx_buffer (snd (loop_dmm stof_dec (''12'' @ [CR]) 0 0 ?s))
      = rx_buffer ?s @ filter (\<lambda>c. c \<noteq> CR) (''12'' @ [CR])"
    using T b by blast
  moreover have "rx_buffer (snd (loop_dmm stof_dec (''x'' @ LF # ''12'' @ [CR]) 0 0 ?s))
      = filter (\<lambda>c. c \<noteq> CR) (''12'' @ [CR])"
    using T b by blast
  moreover have "length (rx_buffer (snd (loop_dmm stof_dec (replicate 3 (CHR ''1'')) 0 0 ?s)))
      = length (rx_buffer ?s) + 3"
    using T c by blast
  moreover have "rx_buffer (snd (do_call stof_dec (Set_function ''RES'') ?s)) = rx_buffer ?s"
    using T nl by blast
  ultimately show ?thesis
    unfolding fl s by simp
qed

section \<open>The status and identification setters\<close>

text \<open>
  C10. \<open>set_status_sensor\<close> and \<open>set_idn_sensor\<close> return the object as it was, whatever
  their argument. Hence, after any sequence of the modelled calls on a new object, both
  pointers are still null, and every text that was published is a function label: the
  argument of a \<open>set_function\<close> call, sent to a sensor bound by \<open>set_function_sensor\<close>.
  No identification line reaches a sensor.
\<close>

theorem status_and_idn_setters_ignore_argument:
  "set_status_sensor sensor s = s
   \<and> set_idn_sensor sensor s = s
   \<and> status_sensor (snd (run stof calls new_SCPIDMM)) = None
   \<and> idn_sensor (snd (run stof calls new_SCPIDMM)) = None
   \<and> (\<forall>e \<in> set (fst (run stof calls new_SCPIDMM)).
        is_text_publish e \<longrightarrow>
        (\<exists>p f. e = PublishText p f \<and> Set_function f \<in> set calls
           \<and> Set_function_sensor (Some p) \<in> set calls))"
proof -
  have n: "idn_sensor new_SCPIDMM = None" "status_sensor new_SCPIDMM = None"
    "function_sensor new_SCPIDMM = None"
    by (simp_all add: new_SCPIDMM_def)
  have "\<exists>p f. e = PublishText p f \<and> Set_function f \<in> set calls
           \<and> Set_function_sensor (Some p) \<in> set calls"
    if "e \<in> set (fst (run stof calls new_SCPIDMM))" and "is_text_publish e" for e
    using run_text_publish [OF n(1) that] n(3) by auto
  then show ?thesis
    using n by (simp add: set_status_sensor_def set_idn_sensor_def run_sensors)
qed

text \<open>
  A run that calls both setters, binds a function sensor, sets the function and then
  receives an identification line.
\<close>

theorem status_and_idn_setters_ignore_argument_witness:
  "fst (run stof_dec [Set_idn_sensor (Some 3), Set_status_sensor (Some 5),
          Set_function_sensor (Some 4), Set_function ''MEAS:RES?'',
          Loop (''OWON'' @ [CR, LF]) 0 0] new_SCPIDMM)
     = [WriteStr (''MEAS:RES?'' @ [CR, LF]), PublishText 4 ''MEAS:RES?'']
   \<and> is_text_publish (PublishText 4 ''MEAS:RES?'' :: real effect)
   \<and> Set_function_sensor (Some 4) \<in> set [Set_idn_sensor (Some 3), Set_status_sensor (Some 5),
          Set_function_sensor (Some 4), Set_function ''MEAS:RES?'',
          Loop (''OWON'' @ [CR, LF]) 0 0]
   \<and> idn_sensor (snd (run stof_dec [Set_idn_sensor (Some 3), Set_status_sensor (Some 5),
          Set_function_sensor (Some 4), Set_function ''MEAS:RES?'',
          Loop (''OWON'' @ [CR, LF]) 0 0] new_SCPIDMM)) = None
   \<and> status_sensor (snd (run stof_dec [Set_idn_sensor (Some 3), Set_status_sensor (Some 5),
          Set_function_sensor (Some 4), Set_function ''MEAS:RES?'',
          Loop (''OWON'' @ [CR, LF]) 0 0] new_SCPIDMM)) = None"
proof -
  let ?calls = "[Set_idn_sensor (Some 3), Set_status_sensor (Some 5),
          Set_function_sensor (Some 4), Set_function ''MEAS:RES?'',
          Loop (''OWON'' @ [CR, LF]) 0 0]"
  note T = status_and_idn_setters_ignore_argument [where stof = stof_dec and calls = ?calls
      and sensor = "Some 3" and s = new_SCPIDMM]
  have ev: "fst (run stof_dec ?calls new_SCPIDMM)
      = [WriteStr (''MEAS:RES?'' @ [CR, LF]), PublishText 4 ''MEAS:RES?'']"
    by (simp add: new_SCPIDMM_def set_idn_sensor_def set_status_sensor_def
          set_function_sensor_def set_function_unfold loop_dmm_unfold query_interval_def
          loop_byte_unfold handle_response_def parse_function_def toupper_def CR_def LF_def)
  have mem: "PublishText 4 ''MEAS:RES?'' \<in> set (fst (run stof_dec ?calls new_SCPIDMM))"
    unfolding ev by simp
  have tp: "is_text_publish (PublishText 4 ''MEAS:RES?'' :: real effect)"
    by simp
  from T mem tp have "\<exists>p f. (PublishText 4 ''MEAS:RES?'' :: real effect) = PublishText p f
      \<and> Set_function f \<in> set ?calls \<and> Set_function_sensor (Some p) \<in> set ?calls"
    by blast
  then have "Set_function_sensor (Some 4) \<in> set ?calls"
    by blast
  moreover have "idn_sensor (snd (run stof_dec ?calls new_SCPIDMM)) = None
      \<and> status_sensor (snd (run stof_dec ?calls new_SCPIDMM)) = None"
    using T by blast
  ultimately show ?thesis
    using ev tp by blast
qed

end
